theory Spec2Isabelle
  imports Complex_Main "HOL-Library.AList"
begin

text \<open>
  The authentication and rate-limiting pipeline of the movie recommendation service
  (\<open>MovieRecDemo_WithCursorRules\<close>), and its popularity score: the token functions of
  \<open>app/core/security.py\<close>, the rate-limit counter of \<open>app/core/cache.py\<close>, the
  dependencies of \<open>app/api/deps.py\<close>, the user service and the two models. Each function
  is a definition of the same name; what it reads from outside (the clock, the settings, the
  database, the counter store) is an argument, and what it logs or changes is part of its
  result. An exception is a value \<open>Inl e\<close>.
\<close>

section \<open>Common Python values\<close>

text \<open>
  Time is a Unix timestamp in whole seconds (\<open>int\<close>): the unit in which the token
  claims \<open>exp\<close> and \<open>iat\<close> are written and in which the counter store counts a key's
  time to live. Every function that reads the clock (\<open>datetime.utcnow()\<close>,
  \<open>datetime.now()\<close>) takes the reading as its argument \<open>now\<close>.
\<close>

type_synonym timestamp = int

text \<open>Python's \<open>str\<close> of an integer, as the f-strings of the source use it.\<close>

definition digit_char :: "nat \<Rightarrow> char" where
  "digit_char n = ''0123456789'' ! n"

fun str_nat :: "nat \<Rightarrow> string" where
  "str_nat n = (if n < 10 then [digit_char n] else str_nat (n div 10) @ [digit_char (n mod 10)])"

declare str_nat.simps [simp del]

definition str_int :: "int \<Rightarrow> string" where
  "str_int i = (if i < 0 then CHR ''-'' # str_nat (nat (- i)) else str_nat (nat i))"

text \<open>The exceptions that the modelled code raises or catches; each carries its message.\<close>

datatype exn =
    JWTError string
  | ExpiredSignatureError string
  | JWTClaimsError string
  | RedisError string
  | SQLAlchemyError string
  | MultipleResultsFound string
  | IntegrityError string
  | ValueError string
  | ZeroDivisionError string
  | JWSError string

fun str_exn :: "exn \<Rightarrow> string" where
  "str_exn (JWTError m) = m"
| "str_exn (ExpiredSignatureError m) = m"
| "str_exn (JWTClaimsError m) = m"
| "str_exn (RedisError m) = m"
| "str_exn (SQLAlchemyError m) = m"
| "str_exn (MultipleResultsFound m) = m"
| "str_exn (IntegrityError m) = m"
| "str_exn (ValueError m) = m"
| "str_exn (ZeroDivisionError m) = m"
| "str_exn (JWSError m) = m"

text \<open>
  \<open>except JWTError\<close> catches the class and its subclasses \<open>ExpiredSignatureError\<close> and
  \<open>JWTClaimsError\<close>.
\<close>

fun is_JWTError :: "exn \<Rightarrow> bool" where
  "is_JWTError (JWTError m) = True"
| "is_JWTError (ExpiredSignatureError m) = True"
| "is_JWTError (JWTClaimsError m) = True"
| "is_JWTError e = False"

text \<open>What \<open>logger.info\<close>, \<open>logger.warning\<close> and \<open>logger.error\<close> write.\<close>

datatype log_level = INFO | WARNING | ERROR

type_synonym log_record = "log_level \<times> string"

text \<open>
  FastAPI's \<open>HTTPException\<close>: what a dependency raises to reject a request.
  \<open>headers\<close> is \<open>None\<close> unless given.
\<close>

record HTTPException =
  status_code :: int
  detail :: string
  headers :: "(string \<times> string) list option"

section \<open>app/core/config.py\<close>

record Settings =
  secret_key :: string
  algorithm :: string
  access_token_expire_minutes :: int
  rate_limit_per_minute :: int

definition validate_secret_key :: "string \<Rightarrow> exn + string" where
  "validate_secret_key v =
     (if length v < 32 then Inl (ValueError ''Secret key must be at least 32 characters long'')
      else Inr v)"

definition validate_rate_limit :: "int \<Rightarrow> exn + int" where
  "validate_rate_limit v =
     (if v < 1 then Inl (ValueError ''Rate limit must be at least 1 request per minute'')
      else Inr v)"

text \<open>
  \<open>settings = Settings()\<close> runs both validators; the module, and with it the service,
  only comes up with a settings object on which they pass.
\<close>

definition valid_settings :: "Settings \<Rightarrow> bool" where
  "valid_settings s \<longleftrightarrow>
     validate_secret_key (secret_key s) = Inr (secret_key s) \<and>
     validate_rate_limit (rate_limit_per_minute s) = Inr (rate_limit_per_minute s)"

section \<open>app/models/user.py\<close>

text \<open>
  The columns of \<open>User\<close> that the authentication pipeline reads. The primary key
  \<open>id\<close> is the field \<open>user_id\<close> here. \<open>api_key\<close> and \<open>api_key_expires_at\<close> are
  nullable columns.
\<close>

record User =
  user_id :: int
  username :: string
  email :: string
  is_active :: bool
  api_key :: "string option"
  api_key_expires_at :: "timestamp option"

text \<open>
  \<open>not self.api_key\<close> holds for \<open>None\<close> and for the empty string; a \<open>datetime\<close> is
  always truthy, so \<open>self.api_key_expires_at and ...\<close> tests for \<open>None\<close>.
\<close>

definition is_api_key_valid :: "timestamp \<Rightarrow> User \<Rightarrow> bool" where
  "is_api_key_valid now u =
     (case api_key u of
        None \<Rightarrow> False
      | Some k \<Rightarrow>
          if k = [] then False
          else (case api_key_expires_at u of
                  None \<Rightarrow> True
                | Some e \<Rightarrow> if now > e then False else True))"

section \<open>The counter store\<close>

text \<open>
  The Redis server behind \<open>app/core/cache.py\<close>, as far as the rate limiter uses it: a
  map from keys to an integer counter and the instant at which the key expires (none
  while no time to live is set). A key whose expiry instant has been reached is gone.
  \<open>INCR\<close> creates a missing key at 0 before adding 1 and leaves the time to live
  alone; \<open>EXPIRE\<close> sets the time to live of an existing key, and deletes the key when
  the time is not positive. The server can be unreachable: then every command raises.
\<close>

type_synonym redis_data = "string \<rightharpoonup> int \<times> timestamp option"

datatype redis_server = Unreachable string | Reachable redis_data

definition redis_live :: "timestamp \<Rightarrow> redis_data \<Rightarrow> string \<Rightarrow> (int \<times> timestamp option) option" where
  "redis_live now d k =
     (case d k of
        None \<Rightarrow> None
      | Some (v, None) \<Rightarrow> Some (v, None)
      | Some (v, Some e) \<Rightarrow> if e \<le> now then None else Some (v, Some e))"

definition redis_incr :: "timestamp \<Rightarrow> string \<Rightarrow> redis_data \<Rightarrow> int \<times> redis_data" where
  "redis_incr now k d =
     (case redis_live now d k of
        None \<Rightarrow> (1, d(k \<mapsto> (1, None)))
      | Some (v, e) \<Rightarrow> (v + 1, d(k \<mapsto> (v + 1, e))))"

definition redis_expire :: "timestamp \<Rightarrow> string \<Rightarrow> int \<Rightarrow> redis_data \<Rightarrow> redis_data" where
  "redis_expire now k seconds d =
     (case redis_live now d k of
        None \<Rightarrow> d
      | Some (v, e) \<Rightarrow> if seconds \<le> 0 then d(k := None) else d(k \<mapsto> (v, Some (now + seconds))))"

section \<open>app/core/cache.py\<close>

definition get_redis_client :: "redis_server \<Rightarrow> exn + redis_data" where
  "get_redis_client srv =
     (case srv of Unreachable m \<Rightarrow> Inl (RedisError m) | Reachable d \<Rightarrow> Inr d)"

text \<open>
  \<open>increment_rate_limit\<close> returns the counter after the increment, what it logged, and
  the server afterwards. The pipeline is \<open>INCR key\<close> then \<open>EXPIRE key expire\<close>, and
  its first result is returned. Any exception gives 0 and one warning.
\<close>

definition increment_rate_limit ::
  "redis_server \<Rightarrow> timestamp \<Rightarrow> string \<Rightarrow> int \<Rightarrow> int \<times> log_record list \<times> redis_server" where
  "increment_rate_limit srv now key expire =
     (case get_redis_client srv of
        Inr client \<Rightarrow>
          (let (r0, d1) = redis_incr now key client;
               d2 = redis_expire now key expire d1
           in (r0, [], Reachable d2))
      | Inl e \<Rightarrow>
          (0, [(WARNING, ''Rate limit increment error for key '' @ key @ '': '' @ str_exn e)], srv))"

section \<open>app/api/deps.py: rate limiting\<close>

text \<open>
  A request, as the dependencies read it: the caller's address \<open>request.client.host\<close>
  and the header fields.
\<close>

record Request =
  client_host :: string
  request_headers :: "(string \<times> string) list"

text \<open>
  Lines 98 to 104 of \<open>rate_limit_middleware\<close>: the identifier under which the request
  is counted. A \<open>User\<close> object is always truthy, so \<open>if current_user\<close> tests for
  \<open>None\<close>.
\<close>

definition rate_limit_key :: "Request \<Rightarrow> User option \<Rightarrow> User option \<Rightarrow> string" where
  "rate_limit_key request current_user api_user =
     (case current_user of
        Some cu \<Rightarrow> ''user:'' @ str_int (user_id cu)
      | None \<Rightarrow>
          (case api_user of
             Some au \<Rightarrow> ''api:'' @ str_int (user_id au)
           | None \<Rightarrow> ''ip:'' @ client_host request))"

definition rate_limit_exceeded :: "Settings \<Rightarrow> HTTPException" where
  "rate_limit_exceeded s =
     \<lparr> status_code = 429,
       detail = ''Rate limit exceeded. Maximum '' @ str_int (rate_limit_per_minute s)
                  @ '' requests per minute.'',
       headers = Some [(''Retry-After'', ''60'')] \<rparr>"

definition rate_limit_middleware ::
  "Settings \<Rightarrow> redis_server \<Rightarrow> timestamp \<Rightarrow> Request \<Rightarrow> User option \<Rightarrow> User option
     \<Rightarrow> (HTTPException + unit) \<times> log_record list \<times> redis_server" where
  "rate_limit_middleware s srv now request current_user api_user =
     (let user_id' = rate_limit_key request current_user api_user;
          (current_count, logs, srv') = increment_rate_limit srv now user_id' 60
      in if current_count > rate_limit_per_minute s
         then (Inl (rate_limit_exceeded s), logs, srv')
         else (Inr (), logs, srv'))"

text \<open>
  Sequential calls: \<open>increments\<close> lists what \<open>increment_rate_limit\<close> returns when it
  is called for one key at the instants \<open>ts\<close>, one call after the other;
  \<open>serve\<close> lists the outcomes of \<open>rate_limit_middleware\<close> for the same request
  arriving at the instants \<open>ts\<close>.
\<close>

fun increments :: "redis_server \<Rightarrow> string \<Rightarrow> int \<Rightarrow> timestamp list \<Rightarrow> int list" where
  "increments srv key expire [] = []"
| "increments srv key expire (t # ts) =
     (case increment_rate_limit srv t key expire of
        (c, logs, srv') \<Rightarrow> c # increments srv' key expire ts)"

fun serve ::
  "Settings \<Rightarrow> Request \<Rightarrow> User option \<Rightarrow> User option \<Rightarrow> redis_server \<Rightarrow> timestamp list
     \<Rightarrow> (HTTPException + unit) list" where
  "serve s request cu au srv [] = []"
| "serve s request cu au srv (t # ts) =
     (case rate_limit_middleware s srv t request cu au of
        (r, logs, srv') \<Rightarrow> r # serve s request cu au srv' ts)"

text \<open>
  Each call arrives before the key set to expire by the call before it is gone, that is
  less than \<open>w\<close> seconds after it.
\<close>

fun within_window :: "int \<Rightarrow> timestamp list \<Rightarrow> bool" where
  "within_window w [] = True"
| "within_window w [t] = True"
| "within_window w (t # t' # ts) = (t' < t + w \<and> within_window w (t' # ts))"

section \<open>JSON Web Tokens\<close>

text \<open>
  The library \<open>jose.jwt\<close> behind \<open>app/core/security.py\<close>. A claims set is a Python
  dict, here an association list read with \<open>map_of\<close>, whose values are strings or
  integers; \<open>jwt.encode\<close> writes a \<open>datetime\<close> under \<open>exp\<close> or \<open>iat\<close> as its
  Unix timestamp.

  The signature is symbolic: \<open>Sig key alg claims\<close> is the message authentication code
  of the header and claims under \<open>key\<close>, and it verifies under no other key, algorithm
  or claims set. A token string is abstracted to what parsing makes of it: \<open>Garbage\<close>
  for a string that is not three well-formed segments, \<open>JWT alg claims sig\<close> otherwise.
  The secret is a plain string, so only the HMAC algorithms can sign with it.
\<close>

datatype json = JStr string | JInt int

type_synonym claims = "(string \<times> json) list"

datatype signature = Sig string string claims

datatype token = Garbage string | JWT string claims signature

definition hmac_algorithms :: "string list" where
  "hmac_algorithms = [''HS256'', ''HS384'', ''HS512'']"

definition jwt_encode :: "claims \<Rightarrow> string \<Rightarrow> string \<Rightarrow> exn + token" where
  "jwt_encode cl key alg =
     (if alg \<in> set hmac_algorithms then Inr (JWT alg cl (Sig key alg cl))
      else Inl (JWSError (''Algorithm '' @ alg @ '' not supported.'')))"

text \<open>
  The checks of \<open>jwt.decode\<close> on the claims that the tokens of this service carry:
  \<open>iat\<close> and \<open>exp\<close> must be integers, \<open>sub\<close> a string, and the token is expired
  when \<open>exp < now\<close>.
\<close>

definition validate_iat :: "claims \<Rightarrow> exn + unit" where
  "validate_iat cl =
     (case map_of cl ''iat'' of
        Some (JStr x) \<Rightarrow> Inl (JWTClaimsError ''Issued At claim (iat) must be an integer.'')
      | _ \<Rightarrow> Inr ())"

definition validate_exp :: "claims \<Rightarrow> timestamp \<Rightarrow> exn + unit" where
  "validate_exp cl now =
     (case map_of cl ''exp'' of
        None \<Rightarrow> Inr ()
      | Some (JStr x) \<Rightarrow> Inl (JWTClaimsError ''Expiration Time claim (exp) must be an integer.'')
      | Some (JInt e) \<Rightarrow>
          if e < now then Inl (ExpiredSignatureError ''Signature has expired.'') else Inr ())"

definition validate_sub :: "claims \<Rightarrow> exn + unit" where
  "validate_sub cl =
     (case map_of cl ''sub'' of
        Some (JInt x) \<Rightarrow> Inl (JWTClaimsError ''Subject must be a string.'')
      | _ \<Rightarrow> Inr ())"

definition validate_claims :: "claims \<Rightarrow> timestamp \<Rightarrow> exn + unit" where
  "validate_claims cl now =
     (case validate_iat cl of
        Inl e \<Rightarrow> Inl e
      | Inr u \<Rightarrow>
          (case validate_exp cl now of
             Inl e \<Rightarrow> Inl e
           | Inr u \<Rightarrow> validate_sub cl))"

definition jwt_decode :: "token \<Rightarrow> string \<Rightarrow> string list \<Rightarrow> timestamp \<Rightarrow> exn + claims" where
  "jwt_decode tok key algorithms now =
     (case tok of
        Garbage g \<Rightarrow> Inl (JWTError ''Not enough segments'')
      | JWT alg cl sg \<Rightarrow>
          if alg \<notin> set algorithms then Inl (JWTError ''The specified alg value is not allowed'')
          else if sg \<noteq> Sig key alg cl then Inl (JWTError ''Signature verification failed.'')
          else (case validate_claims cl now of Inl e \<Rightarrow> Inl e | Inr u \<Rightarrow> Inr cl))"

section \<open>app/core/security.py\<close>

text \<open>
  \<open>expires_delta\<close> is a \<open>timedelta\<close> in seconds or \<open>None\<close>; the zero
  \<open>timedelta\<close> is falsy, so \<open>if expires_delta\<close> sends it to the default as well.
  \<open>token_expire\<close> is the local \<open>expire\<close> of \<open>create_access_token\<close>.
\<close>

definition token_expire :: "Settings \<Rightarrow> timestamp \<Rightarrow> int option \<Rightarrow> timestamp" where
  "token_expire s now expires_delta =
     (case expires_delta of
        Some d \<Rightarrow> if d \<noteq> 0 then now + d else now + 60 * access_token_expire_minutes s
      | None \<Rightarrow> now + 60 * access_token_expire_minutes s)"

definition create_access_token ::
  "Settings \<Rightarrow> timestamp \<Rightarrow> claims \<Rightarrow> int option \<Rightarrow> (exn + token) \<times> log_record list" where
  "create_access_token s now data expires_delta =
     (let expire = token_expire s now expires_delta;
          to_encode = AList.update ''iat'' (JInt now) (AList.update ''exp'' (JInt expire) data)
      in case jwt_encode to_encode (secret_key s) (algorithm s) of
           Inr encoded_jwt \<Rightarrow> (Inr encoded_jwt, [])
         | Inl e \<Rightarrow>
             (Inl (ValueError ''Failed to create access token''),
              [(ERROR, ''Error creating access token: '' @ str_exn e)]))"

definition verify_token :: "Settings \<Rightarrow> timestamp \<Rightarrow> token \<Rightarrow> claims option \<times> log_record list" where
  "verify_token s now tok =
     (case jwt_decode tok (secret_key s) [algorithm s] now of
        Inr payload \<Rightarrow> (Some payload, [])
      | Inl e \<Rightarrow>
          if is_JWTError e then (None, [(WARNING, ''Invalid token: '' @ str_exn e)])
          else (None, [(ERROR, ''Token verification error: '' @ str_exn e)]))"

text \<open>
  \<open>strftime('%Y%m%d')\<close> of a UTC instant: the civil date of the day number
  \<open>t div 86400\<close> in the proleptic Gregorian calendar, as four, two and two digits.
\<close>

definition civil_from_days :: "int \<Rightarrow> int \<times> int \<times> int" where
  "civil_from_days z =
     (let z' = z + 719468;
          era = z' div 146097;
          doe = z' mod 146097;
          yoe = (doe - doe div 1460 + doe div 36524 - doe div 146096) div 365;
          doy = doe - (365 * yoe + yoe div 4 - yoe div 100);
          mp = (5 * doy + 2) div 153;
          d = doy - (153 * mp + 2) div 5 + 1;
          m = (if mp < 10 then mp + 3 else mp - 9);
          y = yoe + era * 400
      in (if m \<le> 2 then y + 1 else y, m, d))"

definition zero_pad :: "nat \<Rightarrow> int \<Rightarrow> string" where
  "zero_pad n i = replicate (n - length (str_int i)) CHR ''0'' @ str_int i"

definition strftime_Ymd :: "timestamp \<Rightarrow> string" where
  "strftime_Ymd t =
     (case civil_from_days (t div 86400) of
        (y, m, d) \<Rightarrow> zero_pad 4 y @ zero_pad 2 m @ zero_pad 2 d)"

definition generate_api_key :: "Settings \<Rightarrow> timestamp \<Rightarrow> string" where
  "generate_api_key s now = ''sk_'' @ take 16 (secret_key s) @ ''_'' @ strftime_Ymd now"

section \<open>app/services/user_service.py\<close>

text \<open>
  The \<open>users\<close> table behind the session \<open>db\<close>: its rows, or a database that cannot be
  reached, on which every statement raises. \<open>scalar_one_or_none\<close> raises on more than
  one row.
\<close>

datatype database = Unavailable string | Users "User list"

definition db_select :: "database \<Rightarrow> (User \<Rightarrow> bool) \<Rightarrow> exn + User list" where
  "db_select db p =
     (case db of
        Unavailable m \<Rightarrow> Inl (SQLAlchemyError m)
      | Users rows \<Rightarrow> Inr (filter p rows))"

fun scalar_one_or_none :: "'a list \<Rightarrow> exn + 'a option" where
  "scalar_one_or_none [] = Inr None"
| "scalar_one_or_none [x] = Inr (Some x)"
| "scalar_one_or_none (x # y # zs) =
     Inl (MultipleResultsFound ''Multiple rows were found when one or none was required'')"

definition get_user_by_id :: "database \<Rightarrow> int \<Rightarrow> exn + User option" where
  "get_user_by_id db uid =
     (case db_select db (\<lambda>u. user_id u = uid) of
        Inl e \<Rightarrow> Inl e
      | Inr result \<Rightarrow> scalar_one_or_none result)"

definition get_user_by_api_key :: "database \<Rightarrow> string \<Rightarrow> exn + User option" where
  "get_user_by_api_key db k =
     (case db_select db (\<lambda>u. api_key u = Some k) of
        Inl e \<Rightarrow> Inl e
      | Inr result \<Rightarrow> scalar_one_or_none result)"

definition create_access_token_for_user ::
  "Settings \<Rightarrow> timestamp \<Rightarrow> User \<Rightarrow> (exn + token) \<times> log_record list" where
  "create_access_token_for_user s now user =
     (let data = [(''sub'', JStr (username user)), (''user_id'', JInt (user_id user))]
      in create_access_token s now data None)"

text \<open>
  \<open>db.commit()\<close> writes the changed user over the row with its primary key. The column
  \<open>api_key\<close> is declared \<open>unique=True\<close>: the commit raises \<open>IntegrityError\<close> when
  another row already holds the same key.
\<close>

definition db_commit_user :: "database \<Rightarrow> User \<Rightarrow> exn + database" where
  "db_commit_user db u =
     (case db of
        Unavailable m \<Rightarrow> Inl (SQLAlchemyError m)
      | Users rows \<Rightarrow>
          if api_key u \<noteq> None \<and> list_ex (\<lambda>r. user_id r \<noteq> user_id u \<and> api_key r = api_key u) rows
          then Inl (IntegrityError ''duplicate key value violates unique constraint'')
          else Inr (Users (map (\<lambda>r. if user_id r = user_id u then u else r) rows)))"

definition generate_api_key_for_user ::
  "Settings \<Rightarrow> timestamp \<Rightarrow> database \<Rightarrow> User \<Rightarrow> exn + string \<times> User \<times> database" where
  "generate_api_key_for_user s now db user =
     (let api_key' = generate_api_key s now;
          user' = user\<lparr>api_key := Some api_key',
                      api_key_expires_at := Some (now + 365 * 86400)\<rparr>
      in case db_commit_user db user' of
           Inl e \<Rightarrow> Inl e
         | Inr db' \<Rightarrow> Inr (api_key', user', db'))"

text \<open>
  The two constraints of the table that the API-key path relies on: \<open>id\<close> is the
  primary key, and no two rows hold the same non-\<open>NULL\<close> \<open>api_key\<close>.
\<close>

definition one_key_per_identity :: "User list \<Rightarrow> bool" where
  "one_key_per_identity rows \<longleftrightarrow>
     distinct (map user_id rows) \<and>
     (\<forall>r \<in> set rows. \<forall>r' \<in> set rows.
        api_key r \<noteq> None \<and> api_key r = api_key r' \<longrightarrow> user_id r = user_id r')"

section \<open>app/api/deps.py: authentication\<close>

text \<open>
  What \<open>HTTPBearer(auto_error=False)\<close> hands over: \<open>None\<close> without a bearer
  \<open>Authorization\<close> header, else the scheme and the token.
\<close>

record HTTPAuthorizationCredentials =
  scheme :: string
  credentials :: token

text \<open>
  A \<open>user_id\<close> claim that is not an integer cannot be compared with the integer
  primary key: the statement raises, and the handler turns that into \<open>None\<close>.
\<close>

definition get_current_user ::
  "Settings \<Rightarrow> database \<Rightarrow> timestamp \<Rightarrow> HTTPAuthorizationCredentials option
     \<Rightarrow> User option \<times> log_record list" where
  "get_current_user s db now creds =
     (case creds of
        None \<Rightarrow> (None, [])
      | Some c \<Rightarrow>
          (case verify_token s now (credentials c) of
             (None, logs) \<Rightarrow> (None, logs)
           | (Some payload, logs) \<Rightarrow>
               (case (map_of payload ''sub'', map_of payload ''user_id'') of
                  (None, _) \<Rightarrow> (None, logs)
                | (_, None) \<Rightarrow> (None, logs)
                | (Some username', Some (JStr x)) \<Rightarrow>
                    (None, logs @ [(ERROR, ''Authentication error: invalid input for query argument'')])
                | (Some username', Some (JInt uid)) \<Rightarrow>
                    (case get_user_by_id db uid of
                       Inl e \<Rightarrow> (None, logs @ [(ERROR, ''Authentication error: '' @ str_exn e)])
                     | Inr None \<Rightarrow> (None, logs)
                     | Inr (Some user) \<Rightarrow>
                         if \<not> is_active user then (None, logs) else (Some user, logs)))))"

definition get_current_active_user :: "User option \<Rightarrow> HTTPException + User" where
  "get_current_active_user current_user =
     (case current_user of
        None \<Rightarrow>
          Inl \<lparr> status_code = 401, detail = ''Not authenticated'',
                headers = Some [(''WWW-Authenticate'', ''Bearer'')] \<rparr>
      | Some u \<Rightarrow>
          if \<not> is_active u
          then Inl \<lparr> status_code = 400, detail = ''Inactive user'', headers = None \<rparr>
          else Inr u)"

text \<open>
  \<open>request.headers.get("X-API-Key")\<close>; \<open>not api_key\<close> holds for a missing and for
  an empty header.
\<close>

definition verify_api_key ::
  "database \<Rightarrow> timestamp \<Rightarrow> Request \<Rightarrow> User option \<times> log_record list" where
  "verify_api_key db now request =
     (case map_of (request_headers request) ''X-API-Key'' of
        None \<Rightarrow> (None, [])
      | Some k \<Rightarrow>
          if k = [] then (None, [])
          else (case get_user_by_api_key db k of
                  Inl e \<Rightarrow> (None, [(ERROR, ''API key verification error: '' @ str_exn e)])
                | Inr None \<Rightarrow> (None, [])
                | Inr (Some user) \<Rightarrow>
                    if is_api_key_valid now user \<and> is_active user then (Some user, [])
                    else (None, [])))"

definition require_auth :: "User option \<Rightarrow> User option \<Rightarrow> HTTPException + User" where
  "require_auth current_user api_user =
     (case current_user of
        Some cu \<Rightarrow> Inr cu
      | None \<Rightarrow>
          (case api_user of
             Some au \<Rightarrow> Inr au
           | None \<Rightarrow>
               Inl \<lparr> status_code = 401, detail = ''Authentication required'',
                     headers = Some [(''WWW-Authenticate'', ''Bearer'')] \<rparr>))"

definition optional_auth :: "User option \<Rightarrow> User option \<Rightarrow> User option" where
  "optional_auth current_user api_user =
     (case current_user of
        Some cu \<Rightarrow> Some cu
      | None \<Rightarrow> (case api_user of Some au \<Rightarrow> Some au | None \<Rightarrow> None))"

text \<open>
  \<open>Depends\<close>: a dependency receives what the dependencies it names return for the
  same request. These are the three authentication dependencies as a request meets them.
\<close>

definition active_user_of_request ::
  "Settings \<Rightarrow> database \<Rightarrow> timestamp \<Rightarrow> HTTPAuthorizationCredentials option
     \<Rightarrow> HTTPException + User" where
  "active_user_of_request s db now creds =
     get_current_active_user (fst (get_current_user s db now creds))"

definition require_auth_of_request ::
  "Settings \<Rightarrow> database \<Rightarrow> timestamp \<Rightarrow> Request \<Rightarrow> HTTPAuthorizationCredentials option
     \<Rightarrow> HTTPException + User" where
  "require_auth_of_request s db now request creds =
     require_auth (fst (get_current_user s db now creds)) (fst (verify_api_key db now request))"

definition optional_auth_of_request ::
  "Settings \<Rightarrow> database \<Rightarrow> timestamp \<Rightarrow> Request \<Rightarrow> HTTPAuthorizationCredentials option
     \<Rightarrow> User option" where
  "optional_auth_of_request s db now request creds =
     optional_auth (fst (get_current_user s db now creds)) (fst (verify_api_key db now request))"

section \<open>app/models/movie.py\<close>

text \<open>
  The columns that \<open>popularity_score\<close> reads; all are nullable. Python's \<open>float\<close> is
  taken as \<open>real\<close>: the score is the value of the formula in exact arithmetic.
\<close>

record Movie =
  popularity :: "real option"
  vote_average :: "real option"
  vote_count :: "int option"
  release_date :: "timestamp option"
  budget :: "int option"
  revenue :: "int option"

text \<open>
  \<open>x or d\<close> is \<open>d\<close> when \<open>x\<close> is \<open>None\<close> or zero; \<open>truthy\<close> is the test that
  \<open>if x\<close> and \<open>x and ...\<close> make on a nullable number. Division raises on a zero
  divisor.
\<close>

definition py_or :: "'a::zero option \<Rightarrow> 'a \<Rightarrow> 'a" where
  "py_or x d = (case x of None \<Rightarrow> d | Some v \<Rightarrow> if v = 0 then d else v)"

definition truthy :: "'a::zero option \<Rightarrow> bool" where
  "truthy x = (case x of None \<Rightarrow> False | Some v \<Rightarrow> v \<noteq> 0)"

definition truediv :: "real \<Rightarrow> real \<Rightarrow> exn + real" where
  "truediv a b = (if b = 0 then Inl (ZeroDivisionError ''division by zero'') else Inr (a / b))"

text \<open>\<open>(datetime.now() - self.release_date).days\<close>: whole days, rounded down.\<close>

definition days_since :: "timestamp \<Rightarrow> timestamp \<Rightarrow> int" where
  "days_since now d = (now - d) div 86400"

definition popularity_score :: "timestamp \<Rightarrow> Movie \<Rightarrow> exn + real" where
  "popularity_score now m =
     (let base_score = py_or (popularity m) 0;
          vote_score = py_or (vote_average m) 0
                         * min (real_of_int (py_or (vote_count m) 0) / 1000) 1;
          recency_bonus =
            (case release_date m of
               Some rd \<Rightarrow>
                 (let years_old = real_of_int (days_since now rd) / 365
                  in max 0 (1 - years_old / 10))
             | None \<Rightarrow> 0.5);
          financial =
            (case (budget m, revenue m) of
               (Some b, Some r) \<Rightarrow>
                 if truthy (budget m) \<and> truthy (revenue m) \<and> b > 0
                 then (case truediv (real_of_int (r - b)) (real_of_int b) of
                         Inl e \<Rightarrow> Inl e
                       | Inr roi \<Rightarrow> Inr (min (roi / 10) 1))
                 else Inr 0
             | _ \<Rightarrow> Inr 0)
      in case financial of
           Inl e \<Rightarrow> Inl e
         | Inr financial_bonus \<Rightarrow>
             Inr (base_score + vote_score + recency_bonus * 0.5 + financial_bonus * 0.3))"

subsection \<open>The scoring formula as the specification words it\<close>

text \<open>
  An absent input counts as its neutral value 0. A budget or revenue is unset when it is
  \<open>NULL\<close> or holds 0, the default of both columns.
\<close>

definition value_or_0 :: "'a::zero option \<Rightarrow> 'a" where
  "value_or_0 x = (case x of None \<Rightarrow> 0 | Some v \<Rightarrow> v)"

definition unset :: "int option \<Rightarrow> bool" where
  "unset x \<longleftrightarrow> x = None \<or> x = Some 0"

definition spec_base :: "Movie \<Rightarrow> real" where
  "spec_base m = value_or_0 (popularity m)"

definition spec_vote_component :: "Movie \<Rightarrow> real" where
  "spec_vote_component m =
     value_or_0 (vote_average m) * min (real_of_int (value_or_0 (vote_count m)) / 1000) 1"

definition spec_recency_bonus :: "timestamp \<Rightarrow> Movie \<Rightarrow> real" where
  "spec_recency_bonus now m =
     (case release_date m of
        None \<Rightarrow> 0.5
      | Some rd \<Rightarrow> max 0 (1 - (real_of_int (days_since now rd) / 365) / 10))"

definition spec_financial_bonus :: "Movie \<Rightarrow> real" where
  "spec_financial_bonus m =
     (if value_or_0 (budget m) \<le> 0 \<or> unset (budget m) \<or> unset (revenue m) then 0
      else min ((real_of_int (value_or_0 (revenue m) - value_or_0 (budget m))
                   / real_of_int (value_or_0 (budget m))) / 10) 1)"

definition spec_score :: "timestamp \<Rightarrow> Movie \<Rightarrow> real" where
  "spec_score now m =
     spec_base m + spec_vote_component m
       + 0.5 * spec_recency_bonus now m + 0.3 * spec_financial_bonus m"

section \<open>Example inputs\<close>

text \<open>A settings object that passes both validators, with a limit of 3, and an anonymous request.\<close>

definition demo_settings :: Settings where
  "demo_settings = \<lparr> secret_key = ''0123456789abcdef0123456789abcdef'', algorithm = ''HS256'',
      access_token_expire_minutes = 30, rate_limit_per_minute = 3 \<rparr>"

definition anonymous_request :: Request where
  "anonymous_request = \<lparr> client_host = ''10.0.0.5'', request_headers = [] \<rparr>"

text \<open>The movie of the test suite: no release date and no financial data.\<close>

definition sample_movie :: Movie where
  "sample_movie = \<lparr> popularity = Some 100, vote_average = Some 8.5, vote_count = Some 1000,
      release_date = None, budget = None, revenue = None \<rparr>"

text \<open>
  Three users, one of them inactive and one holding an API key without expiry; the table
  that holds them, and the same table before any key was issued.
\<close>

definition alice :: User where
  "alice = \<lparr> user_id = 7, username = ''alice'', email = ''alice@example.com'', is_active = True,
      api_key = None, api_key_expires_at = None \<rparr>"

definition bob :: User where
  "bob = \<lparr> user_id = 8, username = ''bob'', email = ''bob@example.com'', is_active = True,
      api_key = Some ''sk_bob'', api_key_expires_at = None \<rparr>"

definition carol :: User where
  "carol = \<lparr> user_id = 9, username = ''carol'', email = ''carol@example.com'', is_active = False,
      api_key = None, api_key_expires_at = None \<rparr>"

definition demo_db :: database where
  "demo_db = Users [alice, bob, carol]"

definition no_key_db :: database where
  "no_key_db = Users [alice, bob\<lparr>api_key := None\<rparr>]"

text \<open>
  \<open>token_of\<close> is the token that \<open>create_access_token\<close> issues under the example
  settings, with the given subject, identity, issue and expiry instants.
\<close>

definition demo_secret :: string where
  "demo_secret = ''0123456789abcdef0123456789abcdef''"

definition token_of :: "string \<Rightarrow> int \<Rightarrow> timestamp \<Rightarrow> timestamp \<Rightarrow> token" where
  "token_of su uid issued expires =
     (let cl = [(''sub'', JStr su), (''user_id'', JInt uid), (''exp'', JInt expires), (''iat'', JInt issued)]
      in JWT ''HS256'' cl (Sig demo_secret ''HS256'' cl))"

definition alice_claims :: claims where
  "alice_claims = [(''sub'', JStr ''alice''), (''user_id'', JInt 7), (''exp'', JInt 2800), (''iat'', JInt 1000)]"


definition bearer :: "token \<Rightarrow> HTTPAuthorizationCredentials" where
  "bearer tok = \<lparr> scheme = ''Bearer'', credentials = tok \<rparr>"

definition request_with_key :: "string \<Rightarrow> Request" where
  "request_with_key k = \<lparr> client_host = ''10.0.0.5'', request_headers = [(''X-API-Key'', k)] \<rparr>"

text \<open>
  Alice and Bob after a key was generated for Alice on 1 January 2024 and for Bob on the
  day after.
\<close>

definition alice_keyed :: User where
  "alice_keyed = alice\<lparr>api_key := Some ''sk_0123456789abcdef_20240101'',
      api_key_expires_at := Some 1735603200\<rparr>"

definition bob_keyed :: User where
  "bob_keyed = bob\<lparr>api_key := Some ''sk_0123456789abcdef_20240102'',
      api_key_expires_at := Some 1735689600\<rparr>"

text \<open>The three rejections of the authentication dependencies, by name.\<close>

definition unauthenticated :: HTTPException where
  "unauthenticated = \<lparr> status_code = 401, detail = ''Not authenticated'',
      headers = Some [(''WWW-Authenticate'', ''Bearer'')] \<rparr>"

definition inactive_user :: HTTPException where
  "inactive_user = \<lparr> status_code = 400, detail = ''Inactive user'', headers = None \<rparr>"

definition authentication_required :: HTTPException where
  "authentication_required = \<lparr> status_code = 401, detail = ''Authentication required'',
      headers = Some [(''WWW-Authenticate'', ''Bearer'')] \<rparr>"

section \<open>The rate limiter\<close>

subsection \<open>Counting\<close>

lemma incr_fresh:
  "d key = None \<Longrightarrow> 0 < w \<Longrightarrow>
   increment_rate_limit (Reachable d) t key w = (1, [], Reachable (d(key \<mapsto> (1, Some (t + w)))))"
  by (simp add: increment_rate_limit_def get_redis_client_def redis_incr_def redis_expire_def redis_live_def)

lemma incr_live:
  "d key = Some (c, Some e) \<Longrightarrow> t < e \<Longrightarrow> 0 < w \<Longrightarrow>
   increment_rate_limit (Reachable d) t key w = (c + 1, [], Reachable (d(key \<mapsto> (c + 1, Some (t + w)))))"
  by (simp add: increment_rate_limit_def get_redis_client_def redis_incr_def redis_expire_def redis_live_def)

lemma increments_live:
  "d key = Some (c, Some e) \<Longrightarrow> (ts \<noteq> [] \<longrightarrow> hd ts < e) \<Longrightarrow> 0 < w \<Longrightarrow> within_window w ts \<Longrightarrow>
   increments (Reachable d) key w ts = [c + 1 .. c + int (length ts)]"
proof (induction ts arbitrary: d c e)
  case Nil
  then show ?case by simp
next
  case (Cons t ts)
  from Cons.prems have lt: "t < e" by simp
  have step: "increment_rate_limit (Reachable d) t key w
      = (c + 1, [], Reachable (d(key \<mapsto> (c + 1, Some (t + w)))))"
    using Cons.prems(1) lt Cons.prems(3) by (rule incr_live)
  have nxt: "ts \<noteq> [] \<longrightarrow> hd ts < t + w"
    using Cons.prems(4) by (cases ts) simp_all
  have ww: "within_window w ts"
    using Cons.prems(4) by (cases ts) simp_all
  have "increments (Reachable (d(key \<mapsto> (c + 1, Some (t + w))))) key w ts
      = [c + 1 + 1 .. c + 1 + int (length ts)]"
    using nxt Cons.prems(3) ww by (intro Cons.IH [where e = "t + w"]) simp_all
  moreover have "[c + 1 .. c + int (length (t # ts))] = (c + 1) # [c + 1 + 1 .. c + 1 + int (length ts)]"
    using upto_rec1 [of "c + 1" "c + int (length (t # ts))"] by (simp add: algebra_simps)
  ultimately show ?case
    using step by simp
qed

lemma increments_fresh:
  assumes "d key = None" and "0 < w" and "within_window w ts"
  shows "increments (Reachable d) key w ts = [1 .. int (length ts)]"
proof (cases ts)
  case Nil
  then show ?thesis by simp
next
  case (Cons t ts')
  have step: "increment_rate_limit (Reachable d) t key w
      = (1, [], Reachable (d(key \<mapsto> (1, Some (t + w)))))"
    using assms(1,2) by (rule incr_fresh)
  have nxt: "ts' \<noteq> [] \<longrightarrow> hd ts' < t + w"
    using assms(3) Cons by (cases ts') simp_all
  have ww: "within_window w ts'"
    using assms(3) Cons by (cases ts') simp_all
  have "increments (Reachable (d(key \<mapsto> (1, Some (t + w))))) key w ts'
      = [1 + 1 .. 1 + int (length ts')]"
    using nxt assms(2) ww by (intro increments_live [where e = "t + w"]) simp_all
  moreover have "[1 .. int (length (t # ts'))] = 1 # [1 + 1 .. 1 + int (length ts')]"
    using upto_rec1 [of 1 "int (length (t # ts'))"] by (simp add: algebra_simps)
  ultimately show ?thesis
    using step Cons by simp
qed

lemma serve_increments:
  "serve s request cu au srv ts =
     map (\<lambda>c. if c > rate_limit_per_minute s then Inl (rate_limit_exceeded s) else Inr ())
       (increments srv (rate_limit_key request cu au) 60 ts)"
  by (induction ts arbitrary: srv)
     (simp_all add: rate_limit_middleware_def Let_def split: prod.splits)

subsection \<open>C1: the decision rule\<close>

text \<open>
  Claim C1. Starting from a fresh key, the n-th sequential call of \<open>increment_rate_limit\<close>
  for that key returns n (the calls of a run each arrive before the key has expired);
  \<open>rate_limit_middleware\<close> rejects a request, with status 429 and the header
  \<open>Retry-After: 60\<close>, exactly when the count returned by the increment is strictly
  greater than the configured limit. Hence, of the requests of a run, exactly those numbered
  up to the limit are admitted, and request number limit + 1 is the first one rejected.
\<close>

theorem rate_limit_decision_rule:
  assumes fresh: "d (rate_limit_key request cu au) = None"
    and win: "within_window 60 ts"
  shows "increments (Reachable d) (rate_limit_key request cu au) 60 ts = [1 .. int (length ts)]
     \<and> fst (rate_limit_middleware s srv now request cu au)
         = (if fst (increment_rate_limit srv now (rate_limit_key request cu au) 60)
                 > rate_limit_per_minute s
            then Inl \<lparr> status_code = 429,
                       detail = ''Rate limit exceeded. Maximum ''
                                  @ str_int (rate_limit_per_minute s) @ '' requests per minute.'',
                       headers = Some [(''Retry-After'', ''60'')] \<rparr>
            else Inr ())
     \<and> serve s request cu au (Reachable d) ts
         = map (\<lambda>n. if n > rate_limit_per_minute s then Inl (rate_limit_exceeded s) else Inr ())
             [1 .. int (length ts)]
     \<and> (i < length ts \<longrightarrow>
          (serve s request cu au (Reachable d) ts ! i = Inr ()) = (int i + 1 \<le> rate_limit_per_minute s))"
proof -
  have a: "increments (Reachable d) (rate_limit_key request cu au) 60 ts = [1 .. int (length ts)]"
    using fresh _ win by (rule increments_fresh) simp
  have b: "fst (rate_limit_middleware s srv now request cu au)
         = (if fst (increment_rate_limit srv now (rate_limit_key request cu au) 60)
                 > rate_limit_per_minute s
            then Inl (rate_limit_exceeded s) else Inr ())"
    by (simp add: rate_limit_middleware_def Let_def split: prod.splits)
  have c: "serve s request cu au (Reachable d) ts
         = map (\<lambda>n. if n > rate_limit_per_minute s then Inl (rate_limit_exceeded s) else Inr ())
             [1 .. int (length ts)]"
    by (simp add: serve_increments a)
  have d: "i < length ts \<longrightarrow>
          (serve s request cu au (Reachable d) ts ! i = Inr ()) = (int i + 1 \<le> rate_limit_per_minute s)"
  proof
    assume i: "i < length ts"
    then have "[1 .. int (length ts)] ! i = 1 + int i"
      by (intro nth_upto) simp
    with i show "(serve s request cu au (Reachable d) ts ! i = Inr ()) = (int i + 1 \<le> rate_limit_per_minute s)"
      by (auto simp add: c)
  qed
  from a b c d show ?thesis
    by (simp add: rate_limit_exceeded_def)
qed

theorem rate_limit_decision_rule_witness:
  "increments (Reachable Map.empty) ''ip:10.0.0.5'' 60 [0, 10, 20, 30] = [1, 2, 3, 4]
   \<and> serve demo_settings anonymous_request None None (Reachable Map.empty) [0, 10, 20, 30]
       = [Inr (), Inr (), Inr (), Inl (rate_limit_exceeded demo_settings)]"
proof -
  have k: "rate_limit_key anonymous_request None None = ''ip:10.0.0.5''"
    by (simp add: rate_limit_key_def anonymous_request_def)
  have f: "Map.empty (rate_limit_key anonymous_request None None) = None" by simp
  have w: "within_window 60 [0, 10, 20, 30]" by simp
  have u: "[1 .. int (length [0::int, 10, 20, 30])] = [1, 2, 3, 4]"
    by (simp add: upto_rec1)
  have m: "map (\<lambda>n. if n > rate_limit_per_minute demo_settings
                    then Inl (rate_limit_exceeded demo_settings) else Inr ()) [1, 2, 3, 4]
      = [Inr (), Inr (), Inr (), Inl (rate_limit_exceeded demo_settings)]"
    by (simp add: demo_settings_def)
  note R = rate_limit_decision_rule [where d = Map.empty and request = anonymous_request
      and cu = None and au = None and ts = "[0, 10, 20, 30]" and s = demo_settings, OF f w]
  from R have "increments (Reachable Map.empty) (rate_limit_key anonymous_request None None) 60
      [0, 10, 20, 30] = [1 .. int (length [0::int, 10, 20, 30])]"
    by (rule conjunct1)
  then have a: "increments (Reachable Map.empty) ''ip:10.0.0.5'' 60 [0, 10, 20, 30] = [1, 2, 3, 4]"
    by (simp only: k u)
  from R have "serve demo_settings anonymous_request None None (Reachable Map.empty) [0, 10, 20, 30]
      = map (\<lambda>n. if n > rate_limit_per_minute demo_settings
                    then Inl (rate_limit_exceeded demo_settings) else Inr ())
          [1 .. int (length [0::int, 10, 20, 30])]"
    by (rule conjunct2 [THEN conjunct2, THEN conjunct1])
  then have c: "serve demo_settings anonymous_request None None (Reachable Map.empty) [0, 10, 20, 30]
      = [Inr (), Inr (), Inr (), Inl (rate_limit_exceeded demo_settings)]"
    by (simp only: u m)
  from a c show ?thesis by (rule conjI)
qed

subsection \<open>C2: the key under which a request is counted\<close>

text \<open>
  Claim C2. The rate-limit key is \<open>user:<id>\<close> when the token path resolved an identity,
  otherwise \<open>api:<id>\<close> when the API-key path resolved one, otherwise
  \<open>ip:<caller address>\<close>; for user id 7 the keys are \<open>user:7\<close> and \<open>api:7\<close>, for
  an anonymous caller at 10.0.0.5 the key is \<open>ip:10.0.0.5\<close>; and this key is the one
  the middleware increments.
\<close>

theorem rate_limit_key_priority:
  "rate_limit_key request (Some cu) au = ''user:'' @ str_int (user_id cu)
   \<and> rate_limit_key request None (Some ak) = ''api:'' @ str_int (user_id ak)
   \<and> rate_limit_key request None None = ''ip:'' @ client_host request
   \<and> rate_limit_key request (Some (cu\<lparr>user_id := 7\<rparr>)) au = ''user:7''
   \<and> rate_limit_key request None (Some (ak\<lparr>user_id := 7\<rparr>)) = ''api:7''
   \<and> rate_limit_key (request\<lparr>client_host := ''10.0.0.5''\<rparr>) None None = ''ip:10.0.0.5''
   \<and> snd (rate_limit_middleware s srv now request current_user api_user)
       = snd (increment_rate_limit srv now (rate_limit_key request current_user api_user) 60)"
  by (simp add: rate_limit_key_def rate_limit_middleware_def Let_def
        str_int_def str_nat.simps digit_char_def split: prod.splits)

subsection \<open>C6: the rate limiter fails open\<close>

text \<open>
  Claim C6. When the counter store is unreachable, \<open>increment_rate_limit\<close> returns 0 and
  logs one warning instead of raising, for every key and window; and since a validated
  limit is at least 1, \<open>rate_limit_middleware\<close> then admits the request.
\<close>

theorem rate_limiter_fails_open:
  "increment_rate_limit (Unreachable m) now key expire
     = (0, [(WARNING, ''Rate limit increment error for key '' @ key @ '': '' @ m)], Unreachable m)
   \<and> (valid_settings s \<longrightarrow>
        fst (rate_limit_middleware s (Unreachable m) now request current_user api_user) = Inr ())"
  by (auto simp add: increment_rate_limit_def get_redis_client_def rate_limit_middleware_def
        valid_settings_def validate_rate_limit_def Let_def split: if_splits)

theorem rate_limiter_fails_open_witness:
  "valid_settings demo_settings
   \<and> fst (rate_limit_middleware demo_settings (Unreachable ''Connection refused'') 0
          anonymous_request None None) = Inr ()"
proof -
  have v: "valid_settings demo_settings"
    by (simp add: valid_settings_def demo_settings_def validate_secret_key_def validate_rate_limit_def)
  with rate_limiter_fails_open [where s = demo_settings and m = "''Connection refused''" and now = 0
      and request = anonymous_request and current_user = None and api_user = None]
  show ?thesis by simp
qed

section \<open>The recommendation scorer\<close>

lemma financial_eq:
  "(case (budget m, revenue m) of
               (Some b, Some r) \<Rightarrow>
                 if truthy (budget m) \<and> truthy (revenue m) \<and> b > 0
                 then (case truediv (real_of_int (r - b)) (real_of_int b) of
                         Inl e \<Rightarrow> Inl e
                       | Inr roi \<Rightarrow> Inr (min (roi / 10) 1))
                 else Inr 0
             | _ \<Rightarrow> Inr 0) = Inr (spec_financial_bonus m)"
  by (cases "budget m"; cases "revenue m")
     (auto simp add: spec_financial_bonus_def value_or_0_def unset_def truthy_def truediv_def)

lemma base_eq: "py_or (popularity m) 0 = spec_base m"
  by (simp add: py_or_def spec_base_def value_or_0_def split: option.splits)

lemma vote_eq:
  "py_or (vote_average m) 0 * min (real_of_int (py_or (vote_count m) 0) / 1000) 1
     = spec_vote_component m"
  by (simp add: py_or_def spec_vote_component_def value_or_0_def split: option.splits)

lemma popularity_score_spec: "popularity_score now m = Inr (spec_score now m)"
  unfolding popularity_score_def Let_def financial_eq base_eq vote_eq
  by (simp add: spec_score_def spec_recency_bonus_def split: option.splits)

subsection \<open>C9: the scoring formula\<close>

text \<open>
  Claim C9. For every movie, \<open>popularity_score\<close> equals
  popularity + vote_average * min(vote_count / 1000, 1) + 0.5 * recency_bonus
  + 0.3 * financial_bonus, where recency_bonus is 0.5 when the release date is unknown and
  max(0, 1 - (days_since_release / 365) / 10) otherwise, and financial_bonus is 0 when
  budget <= 0 or budget or revenue is unset and min((revenue - budget) / budget / 10, 1)
  otherwise. With no release date and no financial data the score is
  base + vote_component + 0.25, and no combination of absent inputs raises an error.
  Unset is what the guard \<open>self.budget and self.revenue\<close> tests: \<open>NULL\<close> or the
  column default 0. Scores are computed in exact arithmetic.
\<close>

theorem popularity_score_formula:
  "popularity_score now m = Inr (spec_score now m)
   \<and> (release_date m = None \<and> (unset (budget m) \<or> unset (revenue m)) \<longrightarrow>
        popularity_score now m = Inr (spec_base m + spec_vote_component m + 0.25))
   \<and> (\<forall>e. popularity_score now m \<noteq> Inl e)"
proof -
  have "release_date m = None \<and> (unset (budget m) \<or> unset (revenue m)) \<longrightarrow>
        spec_score now m = spec_base m + spec_vote_component m + 0.25"
    by (auto simp add: spec_score_def spec_recency_bonus_def spec_financial_bonus_def)
  then show ?thesis
    by (simp add: popularity_score_spec)
qed

theorem popularity_score_formula_witness:
  "release_date sample_movie = None \<and> unset (budget sample_movie)
   \<and> popularity_score 1700000000 sample_movie = Inr 108.75"
proof -
  have h: "release_date sample_movie = None \<and> (unset (budget sample_movie) \<or> unset (revenue sample_movie))"
    by (simp add: sample_movie_def unset_def)
  have v: "spec_base sample_movie + spec_vote_component sample_movie + 0.25 = 108.75"
    by (simp add: sample_movie_def spec_base_def spec_vote_component_def value_or_0_def)
  from popularity_score_formula [of 1700000000 sample_movie] h
  have "popularity_score 1700000000 sample_movie
      = Inr (spec_base sample_movie + spec_vote_component sample_movie + 0.25)"
    by blast
  with h v show ?thesis
    by (simp add: sample_movie_def unset_def)
qed


section \<open>Authentication\<close>

lemma get_current_user_active:
  "get_current_user s db now creds = (Some u, logs) \<Longrightarrow> is_active u"
  by (auto simp add: get_current_user_def split: option.splits prod.splits json.splits sum.splits if_splits)

subsection \<open>C3: the active-user dependency\<close>

text \<open>
  Claim C3, as stated, fails. It says that \<open>get_current_active_user\<close> answers a valid
  token of an existing but inactive user with 400. Carol is inactive, her token verifies
  and her row is found, and the dependency answers 401 \<open>Not authenticated\<close>:
  \<open>get_current_user\<close> has already turned the inactive user into no identity.
\<close>

theorem inactive_user_gets_401_counterexample:
  "fst (create_access_token_for_user demo_settings 1000 carol) = Inr (token_of ''carol'' 9 1000 2800)
   \<and> fst (verify_token demo_settings 1001 (token_of ''carol'' 9 1000 2800))
       = Some [(''sub'', JStr ''carol''), (''user_id'', JInt 9), (''exp'', JInt 2800), (''iat'', JInt 1000)]
   \<and> get_user_by_id demo_db 9 = Inr (Some carol)
   \<and> is_active carol = False
   \<and> active_user_of_request demo_settings demo_db 1001
         (Some (bearer (token_of ''carol'' 9 1000 2800))) = Inl unauthenticated
   \<and> active_user_of_request demo_settings demo_db 1001
         (Some (bearer (token_of ''carol'' 9 1000 2800))) \<noteq> Inl inactive_user"
  by (simp add: demo_settings_def alice_def bob_def carol_def demo_db_def demo_secret_def
        token_of_def bearer_def Let_def create_access_token_for_user_def create_access_token_def
        token_expire_def jwt_encode_def hmac_algorithms_def verify_token_def jwt_decode_def
        validate_claims_def validate_iat_def validate_exp_def validate_sub_def
        get_current_user_def get_user_by_id_def db_select_def active_user_of_request_def
        get_current_active_user_def unauthenticated_def inactive_user_def)

text \<open>
  Claim C3, amended. \<open>get_current_active_user\<close> fails with 401 and
  \<open>WWW-Authenticate: Bearer\<close> when \<open>get_current_user\<close> resolves no identity, and
  returns the identity otherwise, which is then active. Handed an identity whose
  \<open>is_active\<close> flag is false it fails with 400 \<open>Inactive user\<close>; but a valid token
  for an existing inactive user resolves no identity and gets the 401 outcome, and no
  request gets the 400 outcome.
\<close>

theorem active_user_outcomes:
  "(fst (get_current_user s db now creds) = None \<longrightarrow>
      active_user_of_request s db now creds = Inl unauthenticated)
   \<and> (fst (get_current_user s db now creds) = Some u \<longrightarrow>
      is_active u \<and> active_user_of_request s db now creds = Inr u)
   \<and> (\<not> is_active v \<longrightarrow> get_current_active_user (Some v) = Inl inactive_user)
   \<and> (fst (verify_token s now (credentials c)) = Some payload
        \<and> map_of payload ''sub'' = Some (JStr su)
        \<and> map_of payload ''user_id'' = Some (JInt uid)
        \<and> get_user_by_id db uid = Inr (Some v) \<and> \<not> is_active v \<longrightarrow>
      active_user_of_request s db now (Some c) = Inl unauthenticated)
   \<and> active_user_of_request s db now creds \<noteq> Inl inactive_user"
proof -
  have act: "is_active u" if "fst (get_current_user s db now creds) = Some u" for u
    using that get_current_user_active [of s db now creds u "snd (get_current_user s db now creds)"]
    by (cases "get_current_user s db now creds") simp
  have a: "fst (get_current_user s db now creds) = None \<longrightarrow>
      active_user_of_request s db now creds = Inl unauthenticated"
    by (simp add: active_user_of_request_def get_current_active_user_def unauthenticated_def)
  have b: "fst (get_current_user s db now creds) = Some u \<longrightarrow>
      is_active u \<and> active_user_of_request s db now creds = Inr u"
    using act by (auto simp add: active_user_of_request_def get_current_active_user_def)
  have c: "\<not> is_active v \<longrightarrow> get_current_active_user (Some v) = Inl inactive_user"
    by (simp add: get_current_active_user_def inactive_user_def)
  have d: "fst (verify_token s now (credentials c)) = Some payload
        \<and> map_of payload ''sub'' = Some (JStr su)
        \<and> map_of payload ''user_id'' = Some (JInt uid)
        \<and> get_user_by_id db uid = Inr (Some v) \<and> \<not> is_active v \<longrightarrow>
      active_user_of_request s db now (Some c) = Inl unauthenticated"
    by (cases "verify_token s now (credentials c)")
       (auto simp add: active_user_of_request_def get_current_user_def get_current_active_user_def
          unauthenticated_def)
  have e: "active_user_of_request s db now creds \<noteq> Inl inactive_user"
  proof (cases "fst (get_current_user s db now creds)")
    case None
    then show ?thesis
      by (simp add: active_user_of_request_def get_current_active_user_def inactive_user_def)
  next
    case (Some w)
    with act [of w] show ?thesis
      by (simp add: active_user_of_request_def get_current_active_user_def)
  qed
  from a b c d e show ?thesis by blast
qed

theorem active_user_outcomes_witness:
  "fst (get_current_user demo_settings demo_db 1001 None) = None
   \<and> active_user_of_request demo_settings demo_db 1001 None = Inl unauthenticated
   \<and> fst (get_current_user demo_settings demo_db 1001 (Some (bearer (token_of ''alice'' 7 1000 2800))))
       = Some alice
   \<and> active_user_of_request demo_settings demo_db 1001 (Some (bearer (token_of ''alice'' 7 1000 2800)))
       = Inr alice
   \<and> \<not> is_active carol
   \<and> get_current_active_user (Some carol) = Inl inactive_user
   \<and> get_user_by_id demo_db 9 = Inr (Some carol)
   \<and> active_user_of_request demo_settings demo_db 1001 (Some (bearer (token_of ''carol'' 9 1000 2800)))
       = Inl unauthenticated"
proof -
  have h1: "fst (get_current_user demo_settings demo_db 1001 None) = None"
    by (simp add: get_current_user_def)
  have h2: "fst (get_current_user demo_settings demo_db 1001 (Some (bearer (token_of ''alice'' 7 1000 2800))))
       = Some alice"
    by (simp add: demo_settings_def alice_def bob_def carol_def demo_db_def demo_secret_def
          token_of_def bearer_def Let_def verify_token_def jwt_decode_def validate_claims_def
          validate_iat_def validate_exp_def validate_sub_def get_current_user_def
          get_user_by_id_def db_select_def)
  have h3: "\<not> is_active carol" by (simp add: carol_def)
  have h4: "fst (verify_token demo_settings 1001 (credentials (bearer (token_of ''carol'' 9 1000 2800))))
       = Some [(''sub'', JStr ''carol''), (''user_id'', JInt 9), (''exp'', JInt 2800), (''iat'', JInt 1000)]
     \<and> map_of [(''sub'', JStr ''carol''), (''user_id'', JInt 9), (''exp'', JInt 2800), (''iat'', JInt 1000)] ''sub''
       = Some (JStr ''carol'')
     \<and> map_of [(''sub'', JStr ''carol''), (''user_id'', JInt 9), (''exp'', JInt 2800), (''iat'', JInt 1000)] ''user_id''
       = Some (JInt 9)
     \<and> get_user_by_id demo_db 9 = Inr (Some carol) \<and> \<not> is_active carol"
    by (simp add: demo_settings_def alice_def bob_def carol_def demo_db_def demo_secret_def
          token_of_def bearer_def Let_def verify_token_def jwt_decode_def validate_claims_def
          validate_iat_def validate_exp_def validate_sub_def get_current_user_def
          get_user_by_id_def db_select_def)
  from active_user_outcomes [where s = demo_settings and db = demo_db and now = 1001 and creds = None] h1
  have r1: "active_user_of_request demo_settings demo_db 1001 None = Inl unauthenticated"
    by blast
  from active_user_outcomes [where s = demo_settings and db = demo_db and now = 1001
      and creds = "Some (bearer (token_of ''alice'' 7 1000 2800))" and u = alice] h2
  have r2: "active_user_of_request demo_settings demo_db 1001 (Some (bearer (token_of ''alice'' 7 1000 2800)))
       = Inr alice"
    by blast
  from active_user_outcomes [where v = carol] h3
  have r3: "get_current_active_user (Some carol) = Inl inactive_user"
    by blast
  from active_user_outcomes [where s = demo_settings and db = demo_db and now = 1001
      and c = "bearer (token_of ''carol'' 9 1000 2800)" and v = carol and uid = 9 and su = "''carol''"
      and payload = "[(''sub'', JStr ''carol''), (''user_id'', JInt 9), (''exp'', JInt 2800), (''iat'', JInt 1000)]"] h4
  have r4: "active_user_of_request demo_settings demo_db 1001 (Some (bearer (token_of ''carol'' 9 1000 2800)))
       = Inl unauthenticated"
    by blast
  from h1 h2 h3 h4 r1 r2 r3 r4 show ?thesis by blast
qed

subsection \<open>C4: the token path has priority\<close>

text \<open>
  Claim C4. When the token path and the API-key path both resolve an identity, possibly
  two different ones, \<open>require_auth\<close> and \<open>optional_auth\<close> both return the
  token-resolved identity. \<open>optional_auth\<close> never rejects: it returns none exactly when
  neither path resolves, which is when \<open>require_auth\<close> rejects with 401.
\<close>

theorem token_path_priority:
  "(fst (get_current_user s db now creds) = Some tu \<and> fst (verify_api_key db now request) = Some au \<longrightarrow>
      require_auth_of_request s db now request creds = Inr tu
      \<and> optional_auth_of_request s db now request creds = Some tu)
   \<and> require_auth (Some tu) api_user = Inr tu
   \<and> optional_auth (Some tu) api_user = Some tu
   \<and> (optional_auth current_user api_user = None) = (current_user = None \<and> api_user = None)
   \<and> (require_auth current_user api_user = Inl e \<longrightarrow>
        e = authentication_required \<and> optional_auth current_user api_user = None)
   \<and> (fst (get_current_user s db now creds) = None \<and> fst (verify_api_key db now request) = None \<longrightarrow>
        optional_auth_of_request s db now request creds = None
        \<and> require_auth_of_request s db now request creds = Inl authentication_required)"
  by (auto simp add: require_auth_of_request_def optional_auth_of_request_def require_auth_def
        optional_auth_def authentication_required_def split: option.splits)

theorem token_path_priority_witness:
  "fst (get_current_user demo_settings demo_db 1001 (Some (bearer (token_of ''alice'' 7 1000 2800))))
     = Some alice
   \<and> fst (verify_api_key demo_db 1001 (request_with_key ''sk_bob'')) = Some bob
   \<and> alice \<noteq> bob
   \<and> require_auth_of_request demo_settings demo_db 1001 (request_with_key ''sk_bob'')
        (Some (bearer (token_of ''alice'' 7 1000 2800))) = Inr alice
   \<and> optional_auth_of_request demo_settings demo_db 1001 (request_with_key ''sk_bob'')
        (Some (bearer (token_of ''alice'' 7 1000 2800))) = Some alice
   \<and> optional_auth_of_request demo_settings demo_db 1001 anonymous_request None = None
   \<and> require_auth_of_request demo_settings demo_db 1001 anonymous_request None
       = Inl authentication_required"
proof -
  have h1: "fst (get_current_user demo_settings demo_db 1001 (Some (bearer (token_of ''alice'' 7 1000 2800))))
     = Some alice"
    by (simp add: demo_settings_def alice_def bob_def carol_def demo_db_def demo_secret_def
          token_of_def bearer_def Let_def verify_token_def jwt_decode_def validate_claims_def
          validate_iat_def validate_exp_def validate_sub_def get_current_user_def
          get_user_by_id_def db_select_def)
  have h2: "fst (verify_api_key demo_db 1001 (request_with_key ''sk_bob'')) = Some bob"
    by (simp add: alice_def bob_def carol_def demo_db_def request_with_key_def verify_api_key_def
          get_user_by_api_key_def db_select_def is_api_key_valid_def)
  have h3: "alice \<noteq> bob"
    by (simp add: alice_def bob_def)
  have h4: "fst (get_current_user demo_settings demo_db 1001 None) = None
     \<and> fst (verify_api_key demo_db 1001 anonymous_request) = None"
    by (simp add: get_current_user_def verify_api_key_def anonymous_request_def)
  from token_path_priority [where s = demo_settings and db = demo_db and now = 1001
      and creds = "Some (bearer (token_of ''alice'' 7 1000 2800))"
      and request = "request_with_key ''sk_bob''" and tu = alice and au = bob] h1 h2
  have r1: "require_auth_of_request demo_settings demo_db 1001 (request_with_key ''sk_bob'')
        (Some (bearer (token_of ''alice'' 7 1000 2800))) = Inr alice
     \<and> optional_auth_of_request demo_settings demo_db 1001 (request_with_key ''sk_bob'')
        (Some (bearer (token_of ''alice'' 7 1000 2800))) = Some alice"
    by blast
  from token_path_priority [where s = demo_settings and db = demo_db and now = 1001
      and creds = None and request = anonymous_request] h4
  have r2: "optional_auth_of_request demo_settings demo_db 1001 anonymous_request None = None
     \<and> require_auth_of_request demo_settings demo_db 1001 anonymous_request None
       = Inl authentication_required"
    by blast
  from h1 h2 h3 r1 r2 show ?thesis by blast
qed

subsection \<open>C10: an API key without expiry\<close>

text \<open>
  Claim C10. A user whose \<open>api_key\<close> is a non-empty string and whose
  \<open>api_key_expires_at\<close> is unset has a valid key at every instant, so the API-key path
  resolves that user at every instant while the account is active; a user whose
  \<open>api_key\<close> is unset never has a valid key.
\<close>

theorem api_key_without_expiry_never_expires:
  "(api_key u = Some k \<and> k \<noteq> [] \<and> api_key_expires_at u = None \<longrightarrow> is_api_key_valid now u)
   \<and> (api_key u = None \<longrightarrow> \<not> is_api_key_valid now u)
   \<and> (api_key u = Some k \<and> k \<noteq> [] \<and> api_key_expires_at u = None \<and> is_active u
        \<and> map_of (request_headers request) ''X-API-Key'' = Some k
        \<and> get_user_by_api_key db k = Inr (Some u) \<longrightarrow>
      fst (verify_api_key db now request) = Some u)"
  by (simp add: is_api_key_valid_def verify_api_key_def)

theorem api_key_without_expiry_never_expires_witness:
  "api_key bob = Some ''sk_bob'' \<and> api_key_expires_at bob = None \<and> is_active bob
   \<and> get_user_by_api_key demo_db ''sk_bob'' = Inr (Some bob)
   \<and> is_api_key_valid 32503680000 bob
   \<and> fst (verify_api_key demo_db 32503680000 (request_with_key ''sk_bob'')) = Some bob
   \<and> api_key alice = None \<and> \<not> is_api_key_valid 0 alice"
proof -
  have h: "api_key bob = Some ''sk_bob'' \<and> ''sk_bob'' \<noteq> [] \<and> api_key_expires_at bob = None
      \<and> is_active bob
      \<and> map_of (request_headers (request_with_key ''sk_bob'')) ''X-API-Key'' = Some ''sk_bob''
      \<and> get_user_by_api_key demo_db ''sk_bob'' = Inr (Some bob)"
    by (simp add: bob_def alice_def carol_def demo_db_def request_with_key_def
          get_user_by_api_key_def db_select_def)
  have a: "api_key alice = None" by (simp add: alice_def)
  from api_key_without_expiry_never_expires [where u = bob and k = "''sk_bob''" and now = 32503680000
      and request = "request_with_key ''sk_bob''" and db = demo_db] h
  have r1: "is_api_key_valid 32503680000 bob
      \<and> fst (verify_api_key demo_db 32503680000 (request_with_key ''sk_bob'')) = Some bob"
    by blast
  from api_key_without_expiry_never_expires [where u = alice and now = 0] a
  have r2: "\<not> is_api_key_valid 0 alice"
    by blast
  from h a r1 r2 show ?thesis by blast
qed

section \<open>Tokens\<close>

lemma verify_token_decode:
  "fst (verify_token s now tok)
     = (case jwt_decode tok (secret_key s) [algorithm s] now of Inl e \<Rightarrow> None | Inr p \<Rightarrow> Some p)"
  by (simp add: verify_token_def split: sum.splits)

lemma validate_claims_expired:
  "map_of cl ''exp'' = Some (JInt e) \<Longrightarrow> e < now \<Longrightarrow> \<exists>err. validate_claims cl now = Inl err"
  by (simp add: validate_claims_def validate_exp_def split: sum.splits)

subsection \<open>C7: verification fails uniformly\<close>

text \<open>
  Claim C7. \<open>verify_token\<close> returns none, and raises nothing, for a token that is
  structurally malformed, whose signature is invalid, or that is expired, and indeed
  whenever decoding raises any exception; for a well-signed token whose claims are valid
  and unexpired it returns the decoded payload. The caller sees the same none in every
  failure case.
\<close>

theorem verify_token_uniform_failure:
  "fst (verify_token s now (Garbage g)) = None
   \<and> (sg \<noteq> Sig (secret_key s) alg cl \<longrightarrow> fst (verify_token s now (JWT alg cl sg)) = None)
   \<and> (map_of cl ''exp'' = Some (JInt e) \<and> e < now \<longrightarrow> fst (verify_token s now (JWT alg cl sg)) = None)
   \<and> (jwt_decode tok (secret_key s) [algorithm s] now = Inl err \<longrightarrow> fst (verify_token s now tok) = None)
   \<and> (jwt_decode tok (secret_key s) [algorithm s] now = Inr payload \<longrightarrow>
        verify_token s now tok = (Some payload, []))
   \<and> (validate_claims cl now = Inr () \<longrightarrow>
        fst (verify_token s now (JWT (algorithm s) cl (Sig (secret_key s) (algorithm s) cl))) = Some cl)"
proof -
  have a: "fst (verify_token s now (Garbage g)) = None"
    by (simp add: verify_token_decode jwt_decode_def)
  have b: "sg \<noteq> Sig (secret_key s) alg cl \<longrightarrow> fst (verify_token s now (JWT alg cl sg)) = None"
    by (simp add: verify_token_decode jwt_decode_def)
  have c: "map_of cl ''exp'' = Some (JInt e) \<and> e < now \<longrightarrow> fst (verify_token s now (JWT alg cl sg)) = None"
    using validate_claims_expired [of cl e now]
    by (auto simp add: verify_token_decode jwt_decode_def split: sum.splits)
  have d: "jwt_decode tok (secret_key s) [algorithm s] now = Inl err \<longrightarrow> fst (verify_token s now tok) = None"
    by (simp add: verify_token_decode)
  have e: "jwt_decode tok (secret_key s) [algorithm s] now = Inr payload \<longrightarrow>
        verify_token s now tok = (Some payload, [])"
    by (simp add: verify_token_def)
  have f: "validate_claims cl now = Inr () \<longrightarrow>
        fst (verify_token s now (JWT (algorithm s) cl (Sig (secret_key s) (algorithm s) cl))) = Some cl"
    by (simp add: verify_token_decode jwt_decode_def)
  from a b c d e f show ?thesis by blast
qed

theorem verify_token_uniform_failure_witness:
  "fst (verify_token demo_settings 1001 (Garbage ''not.a.token'')) = None
   \<and> Sig ''another secret'' ''HS256'' alice_claims \<noteq> Sig (secret_key demo_settings) ''HS256'' alice_claims
   \<and> fst (verify_token demo_settings 1001
        (JWT ''HS256'' alice_claims (Sig ''another secret'' ''HS256'' alice_claims))) = None
   \<and> map_of alice_claims ''exp'' = Some (JInt 2800) \<and> (2800::int) < 2801
   \<and> fst (verify_token demo_settings 2801 (token_of ''alice'' 7 1000 2800)) = None
   \<and> validate_claims alice_claims 1001 = Inr ()
   \<and> fst (verify_token demo_settings 1001 (token_of ''alice'' 7 1000 2800)) = Some alice_claims"
proof -
  have t: "token_of ''alice'' 7 1000 2800
      = JWT (algorithm demo_settings) alice_claims
          (Sig (secret_key demo_settings) (algorithm demo_settings) alice_claims)"
    by (simp add: token_of_def alice_claims_def demo_settings_def demo_secret_def Let_def)
  have h1: "Sig ''another secret'' ''HS256'' alice_claims \<noteq> Sig (secret_key demo_settings) ''HS256'' alice_claims"
    by (simp add: demo_settings_def)
  have h2: "map_of alice_claims ''exp'' = Some (JInt 2800) \<and> (2800::int) < 2801"
    by (simp add: alice_claims_def)
  have h3: "validate_claims alice_claims 1001 = Inr ()"
    by (simp add: alice_claims_def validate_claims_def validate_iat_def validate_exp_def validate_sub_def)
  note V = verify_token_uniform_failure
  from V [where s = demo_settings and now = 1001 and g = "''not.a.token''"]
  have r0: "fst (verify_token demo_settings 1001 (Garbage ''not.a.token'')) = None"
    by blast
  from V [where s = demo_settings and now = 1001 and alg = "''HS256''" and cl = alice_claims
      and sg = "Sig ''another secret'' ''HS256'' alice_claims"] h1
  have r1: "fst (verify_token demo_settings 1001
        (JWT ''HS256'' alice_claims (Sig ''another secret'' ''HS256'' alice_claims))) = None"
    by blast
  from V [where s = demo_settings and now = 2801 and alg = "algorithm demo_settings" and cl = alice_claims
      and e = 2800 and sg = "Sig (secret_key demo_settings) (algorithm demo_settings) alice_claims"] h2
  have r2: "fst (verify_token demo_settings 2801 (token_of ''alice'' 7 1000 2800)) = None"
    unfolding t by blast
  from V [where s = demo_settings and now = 1001 and cl = alice_claims] h3
  have r3: "fst (verify_token demo_settings 1001 (token_of ''alice'' 7 1000 2800)) = Some alice_claims"
    unfolding t by blast
  from r0 h1 r1 h2 r2 h3 r3 show ?thesis by blast
qed

subsection \<open>C8: issuing and verifying\<close>



section \<open>API keys\<close>

lemma civil_2024_01_01: "civil_from_days 19723 = (2024, 1, 1)"
  unfolding civil_from_days_def Let_def by simp

lemma day1: "strftime_Ymd 1704067200 = ''20240101''"
  by (simp add: strftime_Ymd_def civil_2024_01_01 zero_pad_def str_int_def str_nat.simps digit_char_def)

lemma day1b: "strftime_Ymd 1704070800 = ''20240101''"
  by (simp add: strftime_Ymd_def civil_2024_01_01 zero_pad_def str_int_def str_nat.simps digit_char_def)

text \<open>The calendar on a leap day.\<close>

lemma civil_2024_02_29: "civil_from_days 19782 = (2024, 2, 29)"
  unfolding civil_from_days_def Let_def by simp

lemma leap_day: "strftime_Ymd 1709251199 = ''20240229''"
  by (simp add: strftime_Ymd_def civil_2024_02_29 zero_pad_def str_int_def str_nat.simps digit_char_def)

lemma civil_2024_01_02: "civil_from_days 19724 = (2024, 1, 2)"
  unfolding civil_from_days_def Let_def by simp

lemma day2: "strftime_Ymd 1704153600 = ''20240102''"
  by (simp add: strftime_Ymd_def civil_2024_01_02 zero_pad_def str_int_def str_nat.simps digit_char_def)

subsection \<open>Commits and lookups under the unique constraint\<close>

lemma commit_rows:
  assumes "db_commit_user (Users rows) u = Inr db'"
  shows "db' = Users (map (\<lambda>r. if user_id r = user_id u then u else r) rows)"
    and "api_key u \<noteq> None \<Longrightarrow> r \<in> set rows \<Longrightarrow> user_id r \<noteq> user_id u \<Longrightarrow> api_key r \<noteq> api_key u"
  using assms by (auto simp add: db_commit_user_def list_ex_iff split: if_splits)

lemma commit_ids:
  "map user_id (map (\<lambda>r. if user_id r = user_id u then u else r) rows) = map user_id rows"
  by (induction rows) auto

lemma commit_preserves_one_key_per_identity:
  assumes inv: "one_key_per_identity rows"
    and c: "db_commit_user (Users rows) u = Inr (Users rows')"
    and k: "api_key u \<noteq> None"
  shows "one_key_per_identity rows'"
proof -
  from commit_rows(1) [OF c] have rows': "rows' = map (\<lambda>r. if user_id r = user_id u then u else r) rows"
    by simp
  have apart: "api_key r \<noteq> api_key u" if "r \<in> set rows" "user_id r \<noteq> user_id u" for r
    using commit_rows(2) [OF c k that] .
  have "map user_id rows' = map user_id rows"
    unfolding rows' by (rule commit_ids)
  with inv have d: "distinct (map user_id rows')"
    by (simp add: one_key_per_identity_def)
  have old: "user_id x = user_id y"
    if "x \<in> set rows" "y \<in> set rows" "api_key x \<noteq> None" "api_key x = api_key y" for x y
    using inv that unfolding one_key_per_identity_def by blast
  have "user_id a = user_id b"
    if a: "a \<in> set rows'" and b: "b \<in> set rows'" and n: "api_key a \<noteq> None" and e: "api_key a = api_key b"
    for a b
  proof -
    from a rows' obtain a0 where a0: "a0 \<in> set rows" "a = (if user_id a0 = user_id u then u else a0)"
      by auto
    from b rows' obtain b0 where b0: "b0 \<in> set rows" "b = (if user_id b0 = user_id u then u else b0)"
      by auto
    show ?thesis
    proof (cases "user_id a0 = user_id u")
      case au: True
      show ?thesis
      proof (cases "user_id b0 = user_id u")
        case True
        with au a0 b0 show ?thesis by simp
      next
        case False
        with au a0 b0 e apart [of b0] show ?thesis by simp
      qed
    next
      case an: False
      show ?thesis
      proof (cases "user_id b0 = user_id u")
        case True
        with an a0 b0 e apart [of a0] show ?thesis by simp
      next
        case False
        with an a0 b0 have "a = a0" "b = b0" by simp_all
        with a0(1) b0(1) n e show ?thesis
          by (intro old) simp_all
      qed
    qed
  qed
  with d show ?thesis
    unfolding one_key_per_identity_def by blast
qed

lemma filter_at_most_one:
  assumes "distinct xs" and "\<And>a b. a \<in> set xs \<Longrightarrow> b \<in> set xs \<Longrightarrow> p a \<Longrightarrow> p b \<Longrightarrow> a = b"
  shows "filter p xs = [] \<or> (\<exists>x. filter p xs = [x])"
  using assms
proof (induction xs)
  case Nil
  then show ?case by simp
next
  case (Cons x xs)
  have ih: "filter p xs = [] \<or> (\<exists>y. filter p xs = [y])"
    using Cons.prems by (intro Cons.IH) auto
  show ?case
  proof (cases "p x")
    case False
    with ih show ?thesis by simp
  next
    case True
    have "filter p xs = []"
    proof (rule ccontr)
      assume "filter p xs \<noteq> []"
      then obtain y where y: "y \<in> set xs" "p y"
        by (metis filter_False)
      with Cons.prems(2) [of x y] True have "x = y" by simp
      with y(1) Cons.prems(1) show False by simp
    qed
    with True show ?thesis by simp
  qed
qed

lemma lookup_at_most_one:
  assumes inv: "one_key_per_identity rows"
  shows "get_user_by_api_key (Users rows) k = Inr None
       \<or> (\<exists>u \<in> set rows. api_key u = Some k \<and> get_user_by_api_key (Users rows) k = Inr (Some u))"
proof -
  from inv have "distinct (map user_id rows)"
    by (simp add: one_key_per_identity_def)
  then have d: "distinct rows" and i: "inj_on user_id (set rows)"
    by (simp_all add: distinct_map)
  have same: "a = b" if "a \<in> set rows" "b \<in> set rows" "api_key a = Some k" "api_key b = Some k" for a b
  proof -
    from that have "api_key a \<noteq> None" "api_key a = api_key b" by simp_all
    with inv that(1,2) have uid: "user_id a = user_id b"
      unfolding one_key_per_identity_def by blast
    from i uid that(1,2) show ?thesis by (rule inj_onD)
  qed
  let ?hits = "filter (\<lambda>u. api_key u = Some k) rows"
  have alt: "?hits = [] \<or> (\<exists>x. ?hits = [x])"
    using d same by (rule filter_at_most_one)
  show ?thesis
  proof (cases "?hits")
    case Nil
    then show ?thesis by (simp add: get_user_by_api_key_def db_select_def)
  next
    case (Cons x ys)
    with alt have one: "?hits = [x]" by simp
    have "x \<in> set ?hits" by (simp add: one)
    then have x: "x \<in> set rows" "api_key x = Some k" by simp_all
    have "get_user_by_api_key (Users rows) k = Inr (Some x)"
      by (simp add: get_user_by_api_key_def db_select_def one)
    with x show ?thesis by blast
  qed
qed

lemma lookup_finds:
  assumes inv: "one_key_per_identity rows" and u: "u \<in> set rows" and k: "api_key u = Some k"
  shows "get_user_by_api_key (Users rows) k = Inr (Some u)"
proof -
  from lookup_at_most_one [OF inv, of k]
  show ?thesis
  proof
    assume "get_user_by_api_key (Users rows) k = Inr None"
    then have "filter (\<lambda>u. api_key u = Some k) rows = []"
      by (cases "filter (\<lambda>u. api_key u = Some k) rows" rule: scalar_one_or_none.cases)
         (simp_all add: get_user_by_api_key_def db_select_def)
    with u k show ?thesis by (simp add: filter_empty_conv)
  next
    assume "\<exists>v \<in> set rows. api_key v = Some k \<and> get_user_by_api_key (Users rows) k = Inr (Some v)"
    then obtain v where v: "v \<in> set rows" "api_key v = Some k"
      "get_user_by_api_key (Users rows) k = Inr (Some v)"
      by blast
    from k v(2) have "api_key u \<noteq> None" "api_key u = api_key v" by simp_all
    with inv u v(1) have uid: "user_id u = user_id v"
      unfolding one_key_per_identity_def by blast
    from inv have "distinct (map user_id rows)"
      by (simp add: one_key_per_identity_def)
    then have "inj_on user_id (set rows)"
      by (simp add: distinct_map)
    from this uid u v(1) have "u = v" by (rule inj_onD)
    with v(3) show ?thesis by simp
  qed
qed

lemma generate_commits:
  assumes "generate_api_key_for_user s now db u = Inr (k, u', db')"
  shows "u' = u\<lparr>api_key := Some k, api_key_expires_at := Some (now + 365 * 86400)\<rparr>"
    and "db_commit_user db u' = Inr db'"
    and "k = generate_api_key s now"
  using assms by (auto simp add: generate_api_key_for_user_def Let_def split: sum.splits)

lemma commit_member:
  assumes "user_id u \<in> user_id ` set rows"
  shows "u \<in> set (map (\<lambda>r. if user_id r = user_id u then u else r) rows)"
proof -
  from assms obtain r where "r \<in> set rows" "user_id r = user_id u" by auto
  then have "(\<lambda>r. if user_id r = user_id u then u else r) r \<in> (\<lambda>r. if user_id r = user_id u then u else r) ` set rows"
    by (intro imageI)
  with \<open>user_id r = user_id u\<close> show ?thesis by simp
qed

lemma commit_keeps_others:
  assumes "r \<in> set rows" and "user_id r \<noteq> user_id u"
  shows "r \<in> set (map (\<lambda>r. if user_id r = user_id u then u else r) rows)"
  using assms by (induction rows) auto

subsection \<open>C5: one key per identity\<close>

text \<open>
  Claim C5. API keys are mapped one-to-one to identities: when \<open>generate_api_key_for_user\<close>
  has generated a key for each of two distinct users of the table, the two stored keys
  differ, the table still holds no key twice, and the lookup by API key resolves each key to
  its one user and any string to at most one identity.
\<close>

theorem api_keys_one_to_one:
  assumes inv: "one_key_per_identity rows"
    and ne: "user_id u1 \<noteq> user_id u2"
    and in1: "user_id u1 \<in> user_id ` set rows"
    and in2: "user_id u2 \<in> user_id ` set rows"
    and g1: "generate_api_key_for_user s t1 (Users rows) u1 = Inr (k1, u1', db1)"
    and g2: "generate_api_key_for_user s t2 db1 u2 = Inr (k2, u2', db2)"
  shows "\<exists>rows2. db2 = Users rows2 \<and> one_key_per_identity rows2
           \<and> u1' \<in> set rows2 \<and> u2' \<in> set rows2
           \<and> api_key u1' = Some k1 \<and> api_key u2' = Some k2 \<and> k1 \<noteq> k2
           \<and> get_user_by_api_key db2 k1 = Inr (Some u1')
           \<and> get_user_by_api_key db2 k2 = Inr (Some u2')
           \<and> (\<forall>k. get_user_by_api_key db2 k = Inr None
                  \<or> (\<exists>u \<in> set rows2. api_key u = Some k
                        \<and> get_user_by_api_key db2 k = Inr (Some u)))"
proof -
  let ?rows1 = "map (\<lambda>r. if user_id r = user_id u1' then u1' else r) rows"
  let ?rows2 = "map (\<lambda>r. if user_id r = user_id u2' then u2' else r) ?rows1"
  note a = generate_commits [OF g1]
  have key1: "api_key u1' = Some k1" and id1: "user_id u1' = user_id u1"
    by (simp_all add: a(1))
  have db1: "db1 = Users ?rows1"
    using a(2) by (rule commit_rows(1))
  have inv1: "one_key_per_identity ?rows1"
    using inv a(2) [unfolded db1] by (rule commit_preserves_one_key_per_identity) (simp add: key1)
  have m1: "u1' \<in> set ?rows1"
    using in1 by (intro commit_member) (simp add: id1)
  note b = generate_commits [OF g2]
  have key2: "api_key u2' = Some k2" and id2: "user_id u2' = user_id u2"
    by (simp_all add: b(1))
  have c2: "db_commit_user (Users ?rows1) u2' = Inr db2"
    using b(2) by (simp add: db1)
  have db2: "db2 = Users ?rows2"
    using c2 by (rule commit_rows(1))
  have inv2: "one_key_per_identity ?rows2"
    using inv1 c2 [unfolded db2] by (rule commit_preserves_one_key_per_identity) (simp add: key2)
  have "map user_id ?rows1 = map user_id rows"
    by (rule commit_ids)
  then have "user_id ` set ?rows1 = user_id ` set rows"
    by (metis set_map)
  with in2 have m2: "u2' \<in> set ?rows2"
    by (intro commit_member) (simp add: id2)
  have m12: "u1' \<in> set ?rows2"
    using m1 by (rule commit_keeps_others) (simp add: id1 id2 ne)
  have "api_key u1' \<noteq> api_key u2'"
    using c2 _ m1 by (rule commit_rows(2)) (simp_all add: key2 id1 id2 ne)
  then have kk: "k1 \<noteq> k2"
    by (simp add: key1 key2)
  have l1: "get_user_by_api_key db2 k1 = Inr (Some u1')"
    unfolding db2 using inv2 m12 key1 by (rule lookup_finds)
  have l2: "get_user_by_api_key db2 k2 = Inr (Some u2')"
    unfolding db2 using inv2 m2 key2 by (rule lookup_finds)
  have l: "\<forall>k. get_user_by_api_key db2 k = Inr None
                  \<or> (\<exists>u \<in> set ?rows2. api_key u = Some k
                        \<and> get_user_by_api_key db2 k = Inr (Some u))"
    unfolding db2 using lookup_at_most_one [OF inv2] by blast
  from db2 inv2 m12 m2 key1 key2 kk l1 l2 l show ?thesis
    by blast
qed

theorem api_keys_one_to_one_witness:
  "one_key_per_identity [alice, bob\<lparr>api_key := None\<rparr>]
   \<and> generate_api_key_for_user demo_settings 1704067200 (Users [alice, bob\<lparr>api_key := None\<rparr>]) alice
       = Inr (''sk_0123456789abcdef_20240101'', alice_keyed, Users [alice_keyed, bob\<lparr>api_key := None\<rparr>])
   \<and> generate_api_key_for_user demo_settings 1704153600 (Users [alice_keyed, bob\<lparr>api_key := None\<rparr>])
         (bob\<lparr>api_key := None\<rparr>)
       = Inr (''sk_0123456789abcdef_20240102'', bob_keyed, Users [alice_keyed, bob_keyed])
   \<and> ''sk_0123456789abcdef_20240101'' \<noteq> ''sk_0123456789abcdef_20240102''
   \<and> one_key_per_identity [alice_keyed, bob_keyed]
   \<and> get_user_by_api_key (Users [alice_keyed, bob_keyed]) ''sk_0123456789abcdef_20240101''
       = Inr (Some alice_keyed)
   \<and> get_user_by_api_key (Users [alice_keyed, bob_keyed]) ''sk_0123456789abcdef_20240102''
       = Inr (Some bob_keyed)"
proof -
  have k1: "generate_api_key demo_settings 1704067200 = ''sk_0123456789abcdef_20240101''"
    by (simp add: generate_api_key_def day1 demo_settings_def)
  have k2: "generate_api_key demo_settings 1704153600 = ''sk_0123456789abcdef_20240102''"
    by (simp add: generate_api_key_def day2 demo_settings_def)
  have inv: "one_key_per_identity [alice, bob\<lparr>api_key := None\<rparr>]"
    by (simp add: one_key_per_identity_def alice_def bob_def)
  have ne: "user_id alice \<noteq> user_id (bob\<lparr>api_key := None\<rparr>)"
    by (simp add: alice_def bob_def)
  have in1: "user_id alice \<in> user_id ` set [alice, bob\<lparr>api_key := None\<rparr>]"
    by simp
  have in2: "user_id (bob\<lparr>api_key := None\<rparr>) \<in> user_id ` set [alice, bob\<lparr>api_key := None\<rparr>]"
    by simp
  have g1: "generate_api_key_for_user demo_settings 1704067200 (Users [alice, bob\<lparr>api_key := None\<rparr>]) alice
       = Inr (''sk_0123456789abcdef_20240101'', alice_keyed, Users [alice_keyed, bob\<lparr>api_key := None\<rparr>])"
    by (simp add: generate_api_key_for_user_def k1 db_commit_user_def alice_keyed_def alice_def bob_def Let_def)
  have g2: "generate_api_key_for_user demo_settings 1704153600 (Users [alice_keyed, bob\<lparr>api_key := None\<rparr>])
         (bob\<lparr>api_key := None\<rparr>)
       = Inr (''sk_0123456789abcdef_20240102'', bob_keyed, Users [alice_keyed, bob_keyed])"
    by (simp add: generate_api_key_for_user_def k2 db_commit_user_def alice_keyed_def bob_keyed_def
          alice_def bob_def Let_def)
  from api_keys_one_to_one [OF inv ne in1 in2 g1 g2]
  obtain rows2 where r: "Users [alice_keyed, bob_keyed] = Users rows2" "one_key_per_identity rows2"
      "''sk_0123456789abcdef_20240101'' \<noteq> ''sk_0123456789abcdef_20240102''"
      "get_user_by_api_key (Users [alice_keyed, bob_keyed]) ''sk_0123456789abcdef_20240101''
         = Inr (Some alice_keyed)"
      "get_user_by_api_key (Users [alice_keyed, bob_keyed]) ''sk_0123456789abcdef_20240102''
         = Inr (Some bob_keyed)"
    by blast
  from r(1) have "rows2 = [alice_keyed, bob_keyed]" by simp
  with r(2) have inv2: "one_key_per_identity [alice_keyed, bob_keyed]" by simp
  from inv g1 g2 r(3) inv2 r(4) r(5) show ?thesis by blast
qed

subsection \<open>Generation on one day\<close>

text \<open>
  \<open>generate_api_key\<close> depends on the secret and the UTC date only: on 1 January 2024 it
  returns the same key at midnight and an hour later. Alice's key is stored; Bob's would be
  the same string, his commit violates the unique constraint, and nothing is stored for him.
\<close>

lemma same_day_generation_fails:
  "generate_api_key demo_settings 1704067200 = ''sk_0123456789abcdef_20240101''
   \<and> generate_api_key demo_settings 1704070800 = ''sk_0123456789abcdef_20240101''
   \<and> generate_api_key_for_user demo_settings 1704067200 no_key_db alice
       = Inr (''sk_0123456789abcdef_20240101'',
              alice\<lparr>api_key := Some ''sk_0123456789abcdef_20240101'',
                     api_key_expires_at := Some 1735603200\<rparr>,
              Users [alice\<lparr>api_key := Some ''sk_0123456789abcdef_20240101'',
                            api_key_expires_at := Some 1735603200\<rparr>,
                     bob\<lparr>api_key := None\<rparr>])
   \<and> generate_api_key_for_user demo_settings 1704070800
        (Users [alice\<lparr>api_key := Some ''sk_0123456789abcdef_20240101'',
                       api_key_expires_at := Some 1735603200\<rparr>,
                bob\<lparr>api_key := None\<rparr>])
        (bob\<lparr>api_key := None\<rparr>)
       = Inl (IntegrityError ''duplicate key value violates unique constraint'')"
proof -
  have k1: "generate_api_key demo_settings 1704067200 = ''sk_0123456789abcdef_20240101''"
    by (simp add: generate_api_key_def day1 demo_settings_def)
  have k2: "generate_api_key demo_settings 1704070800 = ''sk_0123456789abcdef_20240101''"
    by (simp add: generate_api_key_def day1b demo_settings_def)
  have g1: "generate_api_key_for_user demo_settings 1704067200 no_key_db alice
       = Inr (''sk_0123456789abcdef_20240101'',
              alice\<lparr>api_key := Some ''sk_0123456789abcdef_20240101'',
                     api_key_expires_at := Some 1735603200\<rparr>,
              Users [alice\<lparr>api_key := Some ''sk_0123456789abcdef_20240101'',
                            api_key_expires_at := Some 1735603200\<rparr>,
                     bob\<lparr>api_key := None\<rparr>])"
    by (simp add: generate_api_key_for_user_def k1 db_commit_user_def no_key_db_def alice_def bob_def Let_def)
  have g2: "generate_api_key_for_user demo_settings 1704070800
        (Users [alice\<lparr>api_key := Some ''sk_0123456789abcdef_20240101'',
                       api_key_expires_at := Some 1735603200\<rparr>,
                bob\<lparr>api_key := None\<rparr>])
        (bob\<lparr>api_key := None\<rparr>)
       = Inl (IntegrityError ''duplicate key value violates unique constraint'')"
    by (simp add: generate_api_key_for_user_def k2 db_commit_user_def alice_def bob_def Let_def)
  from k1 k2 g1 g2 show ?thesis by blast
qed

text \<open>In general, all keys generated on one UTC day under one secret are equal.\<close>

lemma generate_api_key_same_day:
  "now div 86400 = now' div 86400 \<Longrightarrow> generate_api_key s now = generate_api_key s now'"
  by (simp add: generate_api_key_def strftime_Ymd_def)

text \<open>
  The unique constraint is what keeps stored keys apart: after a commit that went through,
  the committed user is the only row holding its key.
\<close>

lemma commit_keeps_keys_apart:
  assumes "db_commit_user (Users rows) u = Inr (Users rows')"
    and "api_key u = Some k" and "r \<in> set rows'" and "api_key r = Some k"
  shows "user_id r = user_id u"
proof -
  from assms(1,2) have no: "\<not> list_ex (\<lambda>r. user_id r \<noteq> user_id u \<and> api_key r = api_key u) rows"
    and rows': "rows' = map (\<lambda>r. if user_id r = user_id u then u else r) rows"
    by (auto simp add: db_commit_user_def split: if_splits)
  from assms(3) rows' obtain r0 where r0: "r0 \<in> set rows" "r = (if user_id r0 = user_id u then u else r0)"
    by auto
  show ?thesis
  proof (cases "user_id r0 = user_id u")
    case True
    with r0 show ?thesis by simp
  next
    case False
    with r0 have "r = r0" by simp
    with no r0(1) assms(2,4) False show ?thesis
      by (auto simp add: list_ex_iff)
  qed
qed

end
